theory Spec2Isabelle
  imports Complex_Main
begin

section \<open>Go values used by convmarkup\<close>

text \<open>
  Go's \<^verbatim>\<open>int\<close> is modelled by \<^typ>\<open>int\<close> and a finite \<^verbatim>\<open>float64\<close> by the real
  number it denotes. The two agree with Go wherever the values stay inside the 64-bit
  range, which is where line numbers, tensor dimensions and attribute values of this
  package live. Go's integer division truncates towards zero; HOL's \<open>div\<close> rounds
  towards minus infinity, so the source's \<^verbatim>\<open>/\<close> is \<open>go_div\<close> below.
\<close>

definition go_div :: "int \<Rightarrow> int \<Rightarrow> int" where
  "go_div a b = sgn a * sgn b * (\<bar>a\<bar> div \<bar>b\<bar>)"

text \<open>
  The conversion \<^verbatim>\<open>int(v)\<close> of a float64 drops the fractional part. Go leaves the
  result to the implementation for a value outside the range of \<^verbatim>\<open>int\<close>; the model
  gives the whole number itself there.
\<close>

definition float64_to_int :: "real \<Rightarrow> int" where
  "float64_to_int v = (if 0 \<le> v then \<lfloor>v\<rfloor> else \<lceil>v\<rceil>)"

text \<open>The verb \<^verbatim>\<open>%d\<close> of package fmt: decimal digits, with a minus sign when negative.\<close>

definition digit_char :: "nat \<Rightarrow> char" where
  "digit_char n = ''0123456789'' ! n"

function fmt_nat :: "nat \<Rightarrow> string" where
  "fmt_nat n = (if n < 10 then [digit_char n] else fmt_nat (n div 10) @ [digit_char (n mod 10)])"
  by pat_completeness auto
termination
  by (relation "measure id") auto

declare fmt_nat.simps [simp del]

definition fmt_d :: "int \<Rightarrow> string" where
  "fmt_d i = (if i < 0 then CHR ''-'' # fmt_nat (nat (- i)) else fmt_nat (nat i))"

section \<open>Errors\<close>

text \<open>
  The package's sentinel errors are compared by identity in the source, so each is a
  constructor of its own; \<open>Err m\<close> is an error made on the spot by \<^verbatim>\<open>errors.New\<close> or
  \<^verbatim>\<open>fmt.Errorf\<close> with message \<open>m\<close>. \<open>Panic\<close> stands for the run-time panic of an
  index out of range.
\<close>

datatype error =
    ErrUnexpectedChildren
  | ErrNotEnoughChildren
  | ErrUnsupportedBlock
  | Err string
  | Panic

section \<open>Dims, attributes and blocks (blocks.go)\<close>

record Dims =
  Width :: int
  Height :: int
  Depth :: int

text \<open>
  An attribute map \<^verbatim>\<open>map[string]float64\<close> is an association list: the order of the list
  is the order in which a \<^verbatim>\<open>range\<close> loop visits the keys, which Go leaves open, so
  every statement below holds for every order. Reading a key that is absent gives 0.
\<close>

type_synonym attrs = "(string \<times> real) list"

definition attr_get :: "attrs \<Rightarrow> string \<Rightarrow> real" where
  "attr_get attr k = (case map_of attr k of None \<Rightarrow> 0 | Some v \<Rightarrow> v)"

text \<open>
  The block types of the package. The sources hold the file of the blocks in more than one
  revision; the model follows the latest one, the one the package's tests run against,
  with \<^verbatim>\<open>PoolCreator\<close>, \<^verbatim>\<open>CreateResize\<close> and \<^verbatim>\<open>CreateLinear\<close>. The revision in
  blocks.go differs from it in the pooling blocks only (and lacks Resize, Linear, Sigmoid
  and Tanh): every other creator, and the attribute validation, is the same text in both.
  \<open>Pool\<close> is the pooling block of the latest revision; \<open>MaxPool\<close> and \<open>MeanPool\<close>
  are the two pooling blocks of the revision in blocks.go. The \<open>Projection\<close> field of
  a \<open>Residual\<close> is the empty list where the source has nil.
\<close>

datatype Block =
    Root "Block list"
  | Input Dims
  | Assert Dims
  | Conv int int int int int Dims
  | Pool string int int int int Dims
  | MaxPool int int Dims
  | MeanPool int int Dims
  | Padding int int int int Dims
  | Resize Dims
  | Residual "Block list" "Block list"
  | Projection "Block list" Dims
  | FC int
  | Repeat int "Block list" Dims
  | Linear real real Dims
  | Activation string Dims

lemma size_last_less: "cs \<noteq> [] \<Longrightarrow> size (last cs) < Suc (size_list size cs)"
  by (induction cs) auto

text \<open>
  \<^verbatim>\<open>OutDims\<close>. A \<open>Root\<close> and a \<open>Residual\<close> read the last element of a slice; on an
  empty slice the source panics, which is \<open>None\<close> here.
\<close>

function OutDims :: "Block \<Rightarrow> Dims option" where
  "OutDims (Root cs) = (if cs = [] then None else OutDims (last cs))"
| "OutDims (Input out) = Some out"
| "OutDims (Assert inD) = Some inD"
| "OutDims (Conv fw fh fc sx sy out) = Some out"
| "OutDims (Pool name w h sx sy out) = Some out"
| "OutDims (MaxPool w h out) = Some out"
| "OutDims (MeanPool w h out) = Some out"
| "OutDims (Padding t r b l out) = Some out"
| "OutDims (Resize out) = Some out"
| "OutDims (Residual proj res) = (if res = [] then None else OutDims (last res))"
| "OutDims (Projection cs inD) = Some inD"
| "OutDims (FC n) = Some \<lparr>Width = 1, Height = 1, Depth = n\<rparr>"
| "OutDims (Repeat n cs inD) = Some inD"
| "OutDims (Linear scale bias inD) = Some inD"
| "OutDims (Activation name out) = Some out"
  by pat_completeness auto
termination
proof (relation "measure size")
  show "wf (measure (size :: Block \<Rightarrow> nat))"
    by simp
next
  fix cs :: "Block list"
  assume "cs \<noteq> []"
  then show "(last cs, Root cs) \<in> measure size"
    using size_last_less [of cs] by simp
next
  fix res proj :: "Block list"
  assume "res \<noteq> []"
  then show "(last res, Residual proj res) \<in> measure size"
    using size_last_less [of res] by simp
qed

text \<open>\<^verbatim>\<open>Type\<close>: the block name.\<close>

fun Type :: "Block \<Rightarrow> string" where
  "Type (Root cs) = ''''"
| "Type (Input out) = ''Input''"
| "Type (Assert inD) = ''Assert''"
| "Type (Conv fw fh fc sx sy out) = ''Conv''"
| "Type (Pool name w h sx sy out) = name"
| "Type (MaxPool w h out) = ''MaxPool''"
| "Type (MeanPool w h out) = ''MeanPool''"
| "Type (Padding t r b l out) = ''Padding''"
| "Type (Resize out) = ''Resize''"
| "Type (Residual proj res) = ''Residual''"
| "Type (Projection cs inD) = ''Projection''"
| "Type (FC n) = ''FC''"
| "Type (Repeat n cs inD) = ''Repeat''"
| "Type (Linear scale bias inD) = ''Linear''"
| "Type (Activation name out) = name"

type_synonym Creator = "Dims \<Rightarrow> attrs \<Rightarrow> Block list \<Rightarrow> error + Block"

subsection \<open>Attribute validation\<close>

fun onlyTheseAttrs :: "attrs \<Rightarrow> string list \<Rightarrow> error option" where
  "onlyTheseAttrs [] allowed = None"
| "onlyTheseAttrs ((a, v) # rest) allowed =
     (if a \<in> set allowed then onlyTheseAttrs rest allowed
      else Some (Err (''unexpected attribute: '' @ a)))"

fun hasAllAttrs :: "attrs \<Rightarrow> string list \<Rightarrow> error option" where
  "hasAllAttrs attr [] = None"
| "hasAllAttrs attr (x # mustHave) =
     (case map_of attr x of
        None \<Rightarrow> Some (Err (''missing attribute: '' @ x))
      | Some v \<Rightarrow> hasAllAttrs attr mustHave)"

fun validInt :: "attrs \<Rightarrow> int \<Rightarrow> string list \<Rightarrow> error option" where
  "validInt attr minv [] = None"
| "validInt attr minv (name # names) =
     (case map_of attr name of
        None \<Rightarrow> validInt attr minv names
      | Some v \<Rightarrow>
          if v \<noteq> of_int (float64_to_int v)
          then Some (Err (''attribute '' @ name @ '' must be integer''))
          else if float64_to_int v < minv
          then Some (Err (''attribute '' @ name @ '' cannot be '' @ fmt_d (float64_to_int v)))
          else validInt attr minv names)"

definition hasAllAndOnlyInts :: "attrs \<Rightarrow> int \<Rightarrow> string list \<Rightarrow> error option" where
  "hasAllAndOnlyInts attr minv allowed =
     (case onlyTheseAttrs attr allowed of
        Some e \<Rightarrow> Some e
      | None \<Rightarrow>
          (case hasAllAttrs attr allowed of
             Some e \<Rightarrow> Some e
           | None \<Rightarrow> validInt attr minv allowed))"

subsection \<open>Creators\<close>

definition CreateRoot :: Creator where
  "CreateRoot inD attr children =
     (if length children = 0 then Inl ErrNotEnoughChildren
      else case hasAllAndOnlyInts attr 0 [] of
        Some e \<Rightarrow> Inl e
      | None \<Rightarrow> Inr (Root children))"

definition CreateInput :: Creator where
  "CreateInput inD attr children =
     (if length children \<noteq> 0 then Inl ErrUnexpectedChildren
      else case hasAllAndOnlyInts attr 1 [''w'', ''h'', ''d''] of
        Some e \<Rightarrow> Inl e
      | None \<Rightarrow>
          Inr (Input \<lparr>Width = float64_to_int (attr_get attr ''w''),
                      Height = float64_to_int (attr_get attr ''h''),
                      Depth = float64_to_int (attr_get attr ''d'')\<rparr>))"

definition CreateAssert :: Creator where
  "CreateAssert inD attr children =
     (if length children \<noteq> 0 then Inl ErrUnexpectedChildren
      else case hasAllAndOnlyInts attr 0 [''w'', ''h'', ''d''] of
        Some e \<Rightarrow> Inl e
      | None \<Rightarrow>
          let w = float64_to_int (attr_get attr ''w'');
              h = float64_to_int (attr_get attr ''h'');
              d = float64_to_int (attr_get attr ''d'')
          in if w \<noteq> Width inD \<or> h \<noteq> Height inD \<or> d \<noteq> Depth inD
             then Inl (Err (''expected dimensions '' @ fmt_d w @ ''x'' @ fmt_d h @ ''x'' @ fmt_d d
                            @ '' but got '' @ fmt_d (Width inD) @ ''x'' @ fmt_d (Height inD)
                            @ ''x'' @ fmt_d (Depth inD)))
             else Inr (Assert inD))"

text \<open>
  \<^verbatim>\<open>CreateConv\<close> (the same text in blocks.go and in the revision with \<^verbatim>\<open>PoolCreator\<close>).
  An absent stride reads as 0 and is then set to 1; a stride that is present has passed
  \<open>validInt\<close> with minimum 1, so the divisor is never 0.
\<close>

definition CreateConv :: Creator where
  "CreateConv inD attr children =
     (if length children > 0 then Inl ErrUnexpectedChildren
      else case onlyTheseAttrs attr [''w'', ''h'', ''n'', ''sx'', ''sy''] of
        Some e \<Rightarrow> Inl e
      | None \<Rightarrow>
      (case hasAllAttrs attr [''w'', ''h'', ''n''] of
        Some e \<Rightarrow> Inl e
      | None \<Rightarrow>
      (case validInt attr 1 [''w'', ''h'', ''n'', ''sx'', ''sy''] of
        Some e \<Rightarrow> Inl e
      | None \<Rightarrow>
          let FilterWidth = float64_to_int (attr_get attr ''w'');
              FilterHeight = float64_to_int (attr_get attr ''h'');
              FilterCount = float64_to_int (attr_get attr ''n'');
              sx0 = float64_to_int (attr_get attr ''sx'');
              sy0 = float64_to_int (attr_get attr ''sy'');
              StrideX = (if sx0 = 0 then 1 else sx0);
              StrideY = (if sy0 = 0 then 1 else sy0);
              ow = 1 + go_div (Width inD - FilterWidth) StrideX;
              oh = 1 + go_div (Height inD - FilterHeight) StrideY
          in Inr (Conv FilterWidth FilterHeight FilterCount StrideX StrideY
                    \<lparr>Width = (if ow < 0 then 0 else ow),
                     Height = (if oh < 0 then 0 else oh),
                     Depth = FilterCount\<rparr>))))"

text \<open>\<^verbatim>\<open>PoolCreator\<close>, the creator of both \<^verbatim>\<open>MaxPool\<close> and \<^verbatim>\<open>MeanPool\<close> in the default table.\<close>

definition PoolCreator :: "string \<Rightarrow> Creator" where
  "PoolCreator name inD attr children =
     (if length children > 0 then Inl ErrUnexpectedChildren
      else case onlyTheseAttrs attr [''w'', ''h'', ''sx'', ''sy''] of
        Some e \<Rightarrow> Inl e
      | None \<Rightarrow>
      (case hasAllAttrs attr [''w'', ''h''] of
        Some e \<Rightarrow> Inl e
      | None \<Rightarrow>
      (case validInt attr 1 [''w'', ''h'', ''sx'', ''sy''] of
        Some e \<Rightarrow> Inl e
      | None \<Rightarrow>
          let w = float64_to_int (attr_get attr ''w'');
              h = float64_to_int (attr_get attr ''h'');
              sx0 = float64_to_int (attr_get attr ''sx'');
              sy0 = float64_to_int (attr_get attr ''sy'');
              StrideX = (if sx0 = 0 then w else sx0);
              StrideY = (if sy0 = 0 then h else sy0);
              ow = 1 + go_div (Width inD - w) StrideX;
              oh = 1 + go_div (Height inD - h) StrideY
          in Inr (Pool name w h StrideX StrideY
                    \<lparr>Width = (if ow < 0 then 0 else ow),
                     Height = (if oh < 0 then 0 else oh),
                     Depth = Depth inD\<rparr>))))"

text \<open>
  The pooling creators of the revision in blocks.go, which knows no strides: the window
  is the stride, \<^verbatim>\<open>MaxPool\<close> drops a partial window and \<^verbatim>\<open>MeanPool\<close> keeps it.
\<close>

definition CreateMaxPool :: Creator where
  "CreateMaxPool inD attr children =
     (if length children > 0 then Inl ErrUnexpectedChildren
      else case hasAllAndOnlyInts attr 1 [''w'', ''h''] of
        Some e \<Rightarrow> Inl e
      | None \<Rightarrow>
          let w = float64_to_int (attr_get attr ''w'');
              h = float64_to_int (attr_get attr ''h'')
          in Inr (MaxPool w h
                    \<lparr>Width = go_div (Width inD) w,
                     Height = go_div (Height inD) h,
                     Depth = Depth inD\<rparr>))"

definition CreateMeanPool :: Creator where
  "CreateMeanPool inD attr children =
     (if length children > 0 then Inl ErrUnexpectedChildren
      else case hasAllAndOnlyInts attr 1 [''w'', ''h''] of
        Some e \<Rightarrow> Inl e
      | None \<Rightarrow>
          let w = float64_to_int (attr_get attr ''w'');
              h = float64_to_int (attr_get attr ''h'')
          in Inr (MeanPool w h
                    \<lparr>Width = go_div (Width inD + w - 1) w,
                     Height = go_div (Height inD + h - 1) h,
                     Depth = Depth inD\<rparr>))"

definition CreatePadding :: Creator where
  "CreatePadding inD attr children =
     (if length children > 0 then Inl ErrUnexpectedChildren
      else case hasAllAndOnlyInts attr 0 [''t'', ''r'', ''b'', ''l''] of
        Some e \<Rightarrow> Inl e
      | None \<Rightarrow>
          let Top = float64_to_int (attr_get attr ''t'');
              Right = float64_to_int (attr_get attr ''r'');
              Bottom = float64_to_int (attr_get attr ''b'');
              Left = float64_to_int (attr_get attr ''l'')
          in Inr (Padding Top Right Bottom Left
                    \<lparr>Width = Width inD + Left + Right,
                     Height = Height inD + Top + Bottom,
                     Depth = Depth inD\<rparr>))"

definition CreateResize :: Creator where
  "CreateResize inD attr children =
     (if length children > 0 then Inl ErrUnexpectedChildren
      else case hasAllAndOnlyInts attr 1 [''w'', ''h''] of
        Some e \<Rightarrow> Inl e
      | None \<Rightarrow>
          if Width inD = 0 \<or> Height inD = 0 \<or> Depth inD = 0
          then Inl (Err ''input cannot be empty'')
          else Inr (Resize \<lparr>Width = float64_to_int (attr_get attr ''w''),
                            Height = float64_to_int (attr_get attr ''h''),
                            Depth = Depth inD\<rparr>))"

text \<open>
  \<^verbatim>\<open>CreateResidual\<close>. The type assertion \<^verbatim>\<open>children[0].(*Projection)\<close> is the case
  distinction on the first child. The source reads \<^verbatim>\<open>OutDims\<close> of the last child of
  each branch; where that read panics the result is \<open>Inl Panic\<close>. The attribute map is
  never looked at.
\<close>

definition lastOutDims :: "Block list \<Rightarrow> Dims option" where
  "lastOutDims bs = (if bs = [] then None else OutDims (last bs))"

definition CreateResidual :: Creator where
  "CreateResidual inD attr children =
     (if length children < 1 then Inl ErrNotEnoughChildren
      else
        let (ok, projChildren, children') =
              (case hd children of
                 Projection pc pin \<Rightarrow> (True, pc, tl children)
               | _ \<Rightarrow> (False, [], children))
        in if length children' < 1 then Inl ErrNotEnoughChildren
           else case lastOutDims children' of
             None \<Rightarrow> Inl Panic
           | Some layersOut \<Rightarrow>
               if ok
               then (case lastOutDims projChildren of
                       None \<Rightarrow> Inl Panic
                     | Some projOut \<Rightarrow>
                         if projOut \<noteq> layersOut
                         then Inl (Err ''residual output size mismatch'')
                         else Inr (Residual projChildren children'))
               else if layersOut \<noteq> inD
                    then Inl (Err ''residual output size mismatch'')
                    else Inr (Residual projChildren children'))"

definition CreateProjection :: Creator where
  "CreateProjection inD attr children =
     (case hasAllAndOnlyInts attr 0 [] of
        Some e \<Rightarrow> Inl e
      | None \<Rightarrow>
          if length children = 0 then Inl ErrNotEnoughChildren
          else Inr (Projection children inD))"

definition CreateFC :: Creator where
  "CreateFC inD attr children =
     (if length children \<noteq> 0 then Inl ErrUnexpectedChildren
      else case hasAllAndOnlyInts attr 1 [''out''] of
        Some e \<Rightarrow> Inl e
      | None \<Rightarrow> Inr (FC (float64_to_int (attr_get attr ''out''))))"

definition CreateRepeat :: Creator where
  "CreateRepeat inD attr children =
     (case hasAllAndOnlyInts attr 1 [''n''] of
        Some e \<Rightarrow> Inl e
      | None \<Rightarrow>
          if length children > 0
          then (case lastOutDims children of
                  None \<Rightarrow> Inl Panic
                | Some d \<Rightarrow>
                    if d \<noteq> inD then Inl (Err ''input and output lengths must match'')
                    else Inr (Repeat (float64_to_int (attr_get attr ''n'')) children inD))
          else Inr (Repeat (float64_to_int (attr_get attr ''n'')) children inD))"

definition CreateLinear :: Creator where
  "CreateLinear inD attr children =
     (case onlyTheseAttrs attr [''scale'', ''bias''] of
        Some e \<Rightarrow> Inl e
      | None \<Rightarrow>
          if length children > 0 then Inl ErrUnexpectedChildren
          else Inr (Linear (case map_of attr ''scale'' of None \<Rightarrow> 1 | Some v \<Rightarrow> v)
                           (attr_get attr ''bias'') inD))"

definition ActivationCreator :: "string \<Rightarrow> Creator" where
  "ActivationCreator name inD a c =
     (if length c \<noteq> 0 then Inl ErrUnexpectedChildren
      else case hasAllAndOnlyInts a 0 [] of
        Some e \<Rightarrow> Inl e
      | None \<Rightarrow> Inr (Activation name inD))"

text \<open>\<^verbatim>\<open>DefaultCreators\<close>: the table from block names to creators.\<close>

definition DefaultCreators :: "string \<Rightarrow> Creator option" where
  "DefaultCreators =
     map_of
       [('''', CreateRoot),
        (''Input'', CreateInput),
        (''Assert'', CreateAssert),
        (''Conv'', CreateConv),
        (''Padding'', CreatePadding),
        (''Resize'', CreateResize),
        (''Residual'', CreateResidual),
        (''Projection'', CreateProjection),
        (''FC'', CreateFC),
        (''Repeat'', CreateRepeat),
        (''Linear'', CreateLinear),
        (''MaxPool'', PoolCreator ''MaxPool''),
        (''MeanPool'', PoolCreator ''MeanPool''),
        (''BatchNorm'', ActivationCreator ''BatchNorm''),
        (''ReLU'', ActivationCreator ''ReLU''),
        (''Sigmoid'', ActivationCreator ''Sigmoid''),
        (''Tanh'', ActivationCreator ''Tanh''),
        (''Softmax'', ActivationCreator ''Softmax'')]"

section \<open>The realizer chain (realizer.go)\<close>

text \<open>
  A \<^verbatim>\<open>Realizer\<close> is an interface with one method. The realizer objects are the values
  of a type \<open>'r\<close> and the method they implement is a function \<open>rz\<close> that takes the
  object, the chain it was called from, the input dimensions and the block, and gives back
  the pair of the source: an object that may be nil and an error that may be nil.
\<close>

type_synonym ('r, 'v) Realizer = "'r \<Rightarrow> 'r list \<Rightarrow> Dims \<Rightarrow> Block \<Rightarrow> 'v option \<times> error option"

text \<open>The verb \<^verbatim>\<open>%T\<close> on a block: the name of its dynamic type.\<close>

fun go_type :: "Block \<Rightarrow> string" where
  "go_type (Root cs) = ''*convmarkup.Root''"
| "go_type (Input out) = ''*convmarkup.Input''"
| "go_type (Assert inD) = ''*convmarkup.Assert''"
| "go_type (Conv fw fh fc sx sy out) = ''*convmarkup.Conv''"
| "go_type (Pool name w h sx sy out) = ''*convmarkup.Pool''"
| "go_type (MaxPool w h out) = ''*convmarkup.MaxPool''"
| "go_type (MeanPool w h out) = ''*convmarkup.MeanPool''"
| "go_type (Padding t r b l out) = ''*convmarkup.Padding''"
| "go_type (Resize out) = ''*convmarkup.Resize''"
| "go_type (Residual proj res) = ''*convmarkup.Residual''"
| "go_type (Projection cs inD) = ''*convmarkup.Projection''"
| "go_type (FC n) = ''*convmarkup.FC''"
| "go_type (Repeat n cs inD) = ''*convmarkup.Repeat''"
| "go_type (Linear scale bias inD) = ''*convmarkup.Linear''"
| "go_type (Activation name out) = ''*convmarkup.Activation''"

text \<open>\<^verbatim>\<open>MetaRealizer.Realize\<close>: nothing to build for Assert and Input, every other block declined.\<close>

fun MetaRealizer_Realize :: "'r list \<Rightarrow> Dims \<Rightarrow> Block \<Rightarrow> 'v option \<times> error option" where
  "MetaRealizer_Realize chain inDims (Assert inD) = (None, None)"
| "MetaRealizer_Realize chain inDims (Input out) = (None, None)"
| "MetaRealizer_Realize chain inDims b = (None, Some ErrUnsupportedBlock)"

text \<open>
  \<^verbatim>\<open>RealizerChain.Realize\<close>: the loop over the realizers of the chain; \<open>rest\<close> is the
  part of the chain the loop has not visited yet. The result is the triple
  (val, supported, err) of the source.
\<close>

fun Realize_loop ::
  "('r, 'v) Realizer \<Rightarrow> 'r list \<Rightarrow> 'r list \<Rightarrow> Dims \<Rightarrow> Block \<Rightarrow> 'v option \<times> bool \<times> error option"
where
  "Realize_loop rz r [] d b = (None, False, Some (Err (''unsupported block: '' @ go_type b)))"
| "Realize_loop rz r (realizer # rest) d b =
     (case rz realizer r d b of
        (obj, err) \<Rightarrow>
          if err = Some ErrUnsupportedBlock then Realize_loop rz r rest d b
          else (obj, True, err))"

definition RealizerChain_Realize ::
  "('r, 'v) Realizer \<Rightarrow> 'r list \<Rightarrow> Dims \<Rightarrow> Block \<Rightarrow> 'v option \<times> bool \<times> error option"
where
  "RealizerChain_Realize rz r d b = Realize_loop rz r r d b"

section \<open>The syntax tree and its elaboration\<close>

datatype ASTNode =
  ASTNode (ASTNode_Line: int) (BlockName: string) (Attrs: attrs) (Children: "ASTNode list")

text \<open>
  Modelled from the spec: the method \<^verbatim>\<open>ASTNode.Block\<close>, which the tests call as
  \<^verbatim>\<open>parsed.Block(Dims{}, DefaultCreators())\<close>, is not among the source files. The
  specification's general algorithm is followed word for word: the children are elaborated
  in order, the first with the node's own input dimensions and every later one with the
  output dimensions of the child before it; after all children, the creator registered
  under the node's block name is called with the node's input dimensions, its attributes
  and the elaborated children, and a failure is passed up unchanged. The specification
  does not say what a name without a creator gives; here it is an error. The output
  dimensions of a child are read when it has been elaborated; a read that panics is the
  error \<open>Panic\<close>.
\<close>

fun ASTNode_Block :: "(string \<Rightarrow> Creator option) \<Rightarrow> Dims \<Rightarrow> ASTNode \<Rightarrow> error + Block"
  and elaborate_children :: "(string \<Rightarrow> Creator option) \<Rightarrow> Dims \<Rightarrow> ASTNode list \<Rightarrow> error + Block list"
where
  "ASTNode_Block creators inD (ASTNode line name attr cs) =
     (case elaborate_children creators inD cs of
        Inl e \<Rightarrow> Inl e
      | Inr children \<Rightarrow>
          (case creators name of
             None \<Rightarrow> Inl (Err (''unknown block: '' @ name))
           | Some creator \<Rightarrow> creator inD attr children))"
| "elaborate_children creators dims [] = Inr []"
| "elaborate_children creators dims (child # cs) =
     (case ASTNode_Block creators dims child of
        Inl e \<Rightarrow> Inl e
      | Inr b \<Rightarrow>
          (case OutDims b of
             None \<Rightarrow> Inl Panic
           | Some dims' \<Rightarrow>
               (case elaborate_children creators dims' cs of
                  Inl e \<Rightarrow> Inl e
                | Inr bs \<Rightarrow> Inr (b # bs))))"

section \<open>The parser (parser.go)\<close>




definition HasSuffix :: "string \<Rightarrow> string \<Rightarrow> bool" where
  "HasSuffix s suf \<longleftrightarrow> length suf \<le> length s \<and> drop (length s - length suf) s = suf"









text \<open>
  \<^verbatim>\<open>matchingClose\<close>. The loop runs over the lines after the index \<open>opn\<close> (\<^verbatim>\<open>open\<close> in the
  source); \<open>ls\<close> is what is left of them and \<open>i\<close> the index of its head.
\<close>

fun matchingClose_loop :: "string list \<Rightarrow> nat \<Rightarrow> int \<Rightarrow> string + nat" where
  "matchingClose_loop [] i numIndent = Inl ''no matching }''"
| "matchingClose_loop (l # ls) i numIndent =
     (if l = ''}''
      then (if numIndent - 1 = 0 then Inr i else matchingClose_loop ls (i + 1) (numIndent - 1))
      else if HasSuffix l ''{'' then matchingClose_loop ls (i + 1) (numIndent + 1)
      else matchingClose_loop ls (i + 1) numIndent)"
















section \<open>Attribute validation: what the three checks decide\<close>

lemma onlyTheseAttrs_None:
  "onlyTheseAttrs attr allowed = None \<longleftrightarrow> fst ` set attr \<subseteq> set allowed"
  by (induction attr allowed rule: onlyTheseAttrs.induct) auto

lemma onlyTheseAttrs_Some:
  "onlyTheseAttrs attr allowed = Some e \<Longrightarrow>
     \<exists>a. a \<in> fst ` set attr \<and> a \<notin> set allowed \<and> e = Err (''unexpected attribute: '' @ a)"
  by (induction attr allowed rule: onlyTheseAttrs.induct) (auto split: if_splits)

lemma hasAllAttrs_None:
  "hasAllAttrs attr mustHave = None \<longleftrightarrow> (\<forall>x \<in> set mustHave. map_of attr x \<noteq> None)"
  by (induction mustHave) (auto split: option.splits)

lemma hasAllAttrs_Some:
  "hasAllAttrs attr mustHave = Some e \<Longrightarrow>
     \<exists>x. x \<in> set mustHave \<and> map_of attr x = None \<and> e = Err (''missing attribute: '' @ x)"
  by (induction mustHave) (auto split: option.splits)

text \<open>A value passes \<open>validInt\<close> with minimum \<open>minv\<close> when it is a whole number not below it.\<close>

definition intAtLeast :: "int \<Rightarrow> real \<Rightarrow> bool" where
  "intAtLeast minv v \<longleftrightarrow> v = of_int (float64_to_int v) \<and> minv \<le> float64_to_int v"

lemma float64_to_int_of_int [simp]: "float64_to_int (of_int k) = k"
  by (simp add: float64_to_int_def)

lemma intAtLeast_iff: "intAtLeast minv v \<longleftrightarrow> (\<exists>k. v = of_int k \<and> minv \<le> k)"
  by (auto simp: intAtLeast_def)

lemma validInt_None:
  "validInt attr minv names = None \<longleftrightarrow>
     (\<forall>name \<in> set names. \<forall>v. map_of attr name = Some v \<longrightarrow> intAtLeast minv v)"
  by (induction names) (auto simp: intAtLeast_def split: option.splits)

lemma validInt_Some:
  "validInt attr minv names = Some e \<Longrightarrow>
     \<exists>name v. name \<in> set names \<and> map_of attr name = Some v \<and> \<not> intAtLeast minv v \<and>
       (e = Err (''attribute '' @ name @ '' must be integer'') \<or>
        e = Err (''attribute '' @ name @ '' cannot be '' @ fmt_d (float64_to_int v)))"
  by (induction names) (auto simp: intAtLeast_def split: option.splits if_splits)

lemma hasAllAndOnlyInts_None:
  "hasAllAndOnlyInts attr minv allowed = None \<longleftrightarrow>
     fst ` set attr \<subseteq> set allowed \<and>
     (\<forall>x \<in> set allowed. \<exists>v. map_of attr x = Some v \<and> intAtLeast minv v)"
proof (cases "onlyTheseAttrs attr allowed")
  case (Some e)
  then have "\<not> fst ` set attr \<subseteq> set allowed"
    using onlyTheseAttrs_None [of attr allowed] by simp
  with Some show ?thesis
    by (simp add: hasAllAndOnlyInts_def)
next
  case only: None
  then have sub: "fst ` set attr \<subseteq> set allowed"
    by (simp add: onlyTheseAttrs_None)
  show ?thesis
  proof (cases "hasAllAttrs attr allowed")
    case (Some e)
    then have "\<not> (\<forall>x \<in> set allowed. map_of attr x \<noteq> None)"
      using hasAllAttrs_None [of attr allowed] by simp
    then obtain x where "x \<in> set allowed" "map_of attr x = None"
      by blast
    then have "\<not> (\<forall>x \<in> set allowed. \<exists>v. map_of attr x = Some v \<and> intAtLeast minv v)"
      by force
    with Some only show ?thesis
      by (simp add: hasAllAndOnlyInts_def)
  next
    case None
    then have "\<forall>x \<in> set allowed. map_of attr x \<noteq> None"
      by (simp add: hasAllAttrs_None)
    with None only sub show ?thesis
      by (fastforce simp: hasAllAndOnlyInts_def validInt_None)
  qed
qed

text \<open>An error of the validation names an attribute that offends.\<close>

lemma hasAllAndOnlyInts_Some:
  assumes "hasAllAndOnlyInts attr minv allowed = Some e"
  shows "(\<exists>a. a \<in> fst ` set attr \<and> a \<notin> set allowed \<and> e = Err (''unexpected attribute: '' @ a))
    \<or> (\<exists>x. x \<in> set allowed \<and> map_of attr x = None \<and> e = Err (''missing attribute: '' @ x))
    \<or> (\<exists>name v. name \<in> set allowed \<and> map_of attr name = Some v \<and> \<not> intAtLeast minv v \<and>
          (e = Err (''attribute '' @ name @ '' must be integer'') \<or>
           e = Err (''attribute '' @ name @ '' cannot be '' @ fmt_d (float64_to_int v))))"
proof (cases "onlyTheseAttrs attr allowed")
  case (Some e')
  with assms have "e' = e" by (simp add: hasAllAndOnlyInts_def)
  with Some onlyTheseAttrs_Some [of attr allowed e] show ?thesis by blast
next
  case only: None
  show ?thesis
  proof (cases "hasAllAttrs attr allowed")
    case (Some e')
    with assms only have "e' = e" by (simp add: hasAllAndOnlyInts_def)
    with Some hasAllAttrs_Some [of attr allowed e] show ?thesis by blast
  next
    case None
    with assms only have "validInt attr minv allowed = Some e"
      by (simp add: hasAllAndOnlyInts_def)
    from validInt_Some [OF this] show ?thesis by blast
  qed
qed

lemma fmt_d_0: "fmt_d 0 = ''0''"
  by (simp add: fmt_d_def fmt_nat.simps digit_char_def)

section \<open>Convolution and pooling arithmetic\<close>

text \<open>
  The output length as the specification writes it for a window of \<open>w\<close> positions moved
  by a stride \<open>s\<close> over \<open>len\<close> positions: \<open>max(0, 1 + (len - w) / s)\<close> with floor
  division, which is HOL's \<open>div\<close>.
\<close>

definition spec_window_out :: "int \<Rightarrow> int \<Rightarrow> int \<Rightarrow> int" where
  "spec_window_out len w s = max 0 (1 + (len - w) div s)"

lemma go_div_nonneg: "0 \<le> a \<Longrightarrow> 0 < b \<Longrightarrow> go_div a b = a div b"
  by (cases "a = 0") (simp_all add: go_div_def)

lemma go_div_neg: "a < 0 \<Longrightarrow> 0 < b \<Longrightarrow> go_div a b = - ((- a) div b)"
  by (simp add: go_div_def)

text \<open>The stride a creator works with: the attribute when present, the default otherwise.\<close>

definition stride_or :: "attrs \<Rightarrow> string \<Rightarrow> int \<Rightarrow> int" where
  "stride_or attr k dflt = (case map_of attr k of None \<Rightarrow> dflt | Some v \<Rightarrow> float64_to_int v)"

lemma validInt_present:
  "validInt attr minv names = None \<Longrightarrow> name \<in> set names \<Longrightarrow> map_of attr name = Some v \<Longrightarrow>
     v = of_int (float64_to_int v) \<and> minv \<le> float64_to_int v"
  by (auto simp: validInt_None intAtLeast_def)

lemma stride_read:
  assumes "validInt attr 1 names = None" and "k \<in> set names" and "1 \<le> dflt"
  shows "(if float64_to_int (attr_get attr k) = 0 then dflt else float64_to_int (attr_get attr k))
           = stride_or attr k dflt"
    and "1 \<le> stride_or attr k dflt"
proof -
  show "(if float64_to_int (attr_get attr k) = 0 then dflt else float64_to_int (attr_get attr k))
           = stride_or attr k dflt"
  proof (cases "map_of attr k")
    case None
    then show ?thesis by (simp add: attr_get_def stride_or_def float64_to_int_def)
  next
    case (Some v)
    with validInt_present [OF assms(1,2) Some] show ?thesis
      by (simp add: attr_get_def stride_or_def)
  qed
  show "1 \<le> stride_or attr k dflt"
  proof (cases "map_of attr k")
    case None
    with assms(3) show ?thesis by (simp add: stride_or_def)
  next
    case (Some v)
    with validInt_present [OF assms(1,2) Some] show ?thesis
      by (simp add: stride_or_def)
  qed
qed

lemma required_read:
  assumes "hasAllAttrs attr must = None" and "validInt attr minv names = None"
    and "k \<in> set must" and "k \<in> set names"
  shows "minv \<le> float64_to_int (attr_get attr k)"
    and "map_of attr k = Some (of_int (float64_to_int (attr_get attr k)))"
proof -
  from assms(1,3) obtain v where v: "map_of attr k = Some v"
    by (auto simp: hasAllAttrs_None)
  from validInt_present [OF assms(2,4) v] v
  show "minv \<le> float64_to_int (attr_get attr k)"
    and "map_of attr k = Some (of_int (float64_to_int (attr_get attr k)))"
    by (simp_all add: attr_get_def)
qed

lemma clamp_max: "(if x < 0 then 0 else x) = max 0 (x::int)"
  by (simp add: max_def)

lemma CreateConv_accepts:
  assumes "CreateConv inD attr children = Inr b"
  shows "children = []"
    and "onlyTheseAttrs attr [''w'', ''h'', ''n'', ''sx'', ''sy''] = None"
    and "hasAllAttrs attr [''w'', ''h'', ''n''] = None"
    and "validInt attr 1 [''w'', ''h'', ''n'', ''sx'', ''sy''] = None"
proof -
  show c: "children = []"
    using assms by (cases children) (simp_all add: CreateConv_def)
  show o: "onlyTheseAttrs attr [''w'', ''h'', ''n'', ''sx'', ''sy''] = None"
    using assms c by (cases "onlyTheseAttrs attr [''w'', ''h'', ''n'', ''sx'', ''sy'']")
      (simp_all add: CreateConv_def)
  show h: "hasAllAttrs attr [''w'', ''h'', ''n''] = None"
    using assms c o by (cases "hasAllAttrs attr [''w'', ''h'', ''n'']")
      (simp_all add: CreateConv_def)
  show "validInt attr 1 [''w'', ''h'', ''n'', ''sx'', ''sy''] = None"
    using assms c o h by (cases "validInt attr 1 [''w'', ''h'', ''n'', ''sx'', ''sy'']")
      (simp_all add: CreateConv_def)
qed

text \<open>What \<^verbatim>\<open>CreateConv\<close> computes, for every input and every attribute map it accepts.\<close>

lemma CreateConv_result:
  assumes "CreateConv inD attr children = Inr b"
  shows "\<exists>w h n. map_of attr ''w'' = Some (of_int w) \<and> 1 \<le> w
      \<and> map_of attr ''h'' = Some (of_int h) \<and> 1 \<le> h
      \<and> map_of attr ''n'' = Some (of_int n) \<and> 1 \<le> n
      \<and> 1 \<le> stride_or attr ''sx'' 1 \<and> 1 \<le> stride_or attr ''sy'' 1
      \<and> b = Conv w h n (stride_or attr ''sx'' 1) (stride_or attr ''sy'' 1)
            \<lparr>Width = max 0 (1 + go_div (Width inD - w) (stride_or attr ''sx'' 1)),
             Height = max 0 (1 + go_div (Height inD - h) (stride_or attr ''sy'' 1)),
             Depth = n\<rparr>"
proof -
  note acc = CreateConv_accepts [OF assms]
  have sx: "(if float64_to_int (attr_get attr ''sx'') = 0 then 1
             else float64_to_int (attr_get attr ''sx'')) = stride_or attr ''sx'' 1"
    and sx1: "1 \<le> stride_or attr ''sx'' 1"
    using stride_read [OF acc(4), of "''sx''" 1] by simp_all
  have sy: "(if float64_to_int (attr_get attr ''sy'') = 0 then 1
             else float64_to_int (attr_get attr ''sy'')) = stride_or attr ''sy'' 1"
    and sy1: "1 \<le> stride_or attr ''sy'' 1"
    using stride_read [OF acc(4), of "''sy''" 1] by simp_all
  have w: "1 \<le> float64_to_int (attr_get attr ''w'')"
      "map_of attr ''w'' = Some (of_int (float64_to_int (attr_get attr ''w'')))"
    using required_read [OF acc(3,4), of "''w''"] by simp_all
  have h: "1 \<le> float64_to_int (attr_get attr ''h'')"
      "map_of attr ''h'' = Some (of_int (float64_to_int (attr_get attr ''h'')))"
    using required_read [OF acc(3,4), of "''h''"] by simp_all
  have n: "1 \<le> float64_to_int (attr_get attr ''n'')"
      "map_of attr ''n'' = Some (of_int (float64_to_int (attr_get attr ''n'')))"
    using required_read [OF acc(3,4), of "''n''"] by simp_all
  have "CreateConv inD attr children =
      Inr (Conv (float64_to_int (attr_get attr ''w'')) (float64_to_int (attr_get attr ''h''))
        (float64_to_int (attr_get attr ''n'')) (stride_or attr ''sx'' 1) (stride_or attr ''sy'' 1)
        \<lparr>Width = max 0 (1 + go_div (Width inD - float64_to_int (attr_get attr ''w''))
                           (stride_or attr ''sx'' 1)),
         Height = max 0 (1 + go_div (Height inD - float64_to_int (attr_get attr ''h''))
                            (stride_or attr ''sy'' 1)),
         Depth = float64_to_int (attr_get attr ''n'')\<rparr>)"
    unfolding CreateConv_def Let_def acc sx sy clamp_max by simp
  with assms have "b = Conv (float64_to_int (attr_get attr ''w''))
        (float64_to_int (attr_get attr ''h''))
        (float64_to_int (attr_get attr ''n'')) (stride_or attr ''sx'' 1) (stride_or attr ''sy'' 1)
        \<lparr>Width = max 0 (1 + go_div (Width inD - float64_to_int (attr_get attr ''w''))
                           (stride_or attr ''sx'' 1)),
         Height = max 0 (1 + go_div (Height inD - float64_to_int (attr_get attr ''h''))
                            (stride_or attr ''sy'' 1)),
         Depth = float64_to_int (attr_get attr ''n'')\<rparr>"
    by simp
  with w h n sx1 sy1 show ?thesis by blast
qed

text \<open>
  Where the truncating quotient and the floor quotient part: exactly when the window is
  wider than the input by less than the stride, where the source gives 1 and the stated
  formula 0.
\<close>

lemma window_out_truncating:
  assumes "1 \<le> s"
  shows "max 0 (1 + go_div (len - w) s)
       = (if len < w \<and> w - len < s then 1 else spec_window_out len w s)"
proof (cases "len < w")
  case False
  with assms show ?thesis
    by (simp add: go_div_nonneg spec_window_out_def)
next
  case True
  then have neg: "len - w < 0" by simp
  show ?thesis
  proof (cases "w - len < s")
    case True
    with neg assms \<open>len < w\<close> show ?thesis
      by (simp add: go_div_neg)
  next
    case False
    from assms have spos: "0 < s" by simp
    from False have "s \<le> w - len" by simp
    then have "0 < (w - len) div s"
      by (simp only: pos_imp_zdiv_pos_iff [OF spos])
    then have "1 \<le> (w - len) div s" by simp
    moreover from neg have "(len - w) div s < 0"
      by (simp only: pos_imp_zdiv_neg_iff [OF spos])
    then have "(len - w) div s \<le> - 1" by simp
    ultimately show ?thesis
      using neg assms False \<open>len < w\<close> by (simp add: go_div_neg spec_window_out_def)
  qed
qed

lemma CreateConv_filter_fits:
  assumes "CreateConv inD attr children = Inr b"
    and "float64_to_int (attr_get attr ''w'') \<le> Width inD"
    and "float64_to_int (attr_get attr ''h'') \<le> Height inD"
  shows "OutDims b =
     Some \<lparr>Width = spec_window_out (Width inD) (float64_to_int (attr_get attr ''w''))
                     (stride_or attr ''sx'' 1),
           Height = spec_window_out (Height inD) (float64_to_int (attr_get attr ''h''))
                      (stride_or attr ''sy'' 1),
           Depth = float64_to_int (attr_get attr ''n'')\<rparr>"
proof -
  from CreateConv_result [OF assms(1)] obtain w h n
    where a: "map_of attr ''w'' = Some (of_int w)" "map_of attr ''h'' = Some (of_int h)"
      "map_of attr ''n'' = Some (of_int n)"
      "1 \<le> stride_or attr ''sx'' 1" "1 \<le> stride_or attr ''sy'' 1"
      and b: "b = Conv w h n (stride_or attr ''sx'' 1) (stride_or attr ''sy'' 1)
            \<lparr>Width = max 0 (1 + go_div (Width inD - w) (stride_or attr ''sx'' 1)),
             Height = max 0 (1 + go_div (Height inD - h) (stride_or attr ''sy'' 1)),
             Depth = n\<rparr>"
    by blast
  from a have rd: "float64_to_int (attr_get attr ''w'') = w"
    "float64_to_int (attr_get attr ''h'') = h" "float64_to_int (attr_get attr ''n'') = n"
    by (simp_all add: attr_get_def)
  with assms(2,3) a(4,5) b show ?thesis
    by (simp add: window_out_truncating)
qed

lemma PoolCreator_accepts:
  assumes "PoolCreator name inD attr children = Inr b"
  shows "children = []"
    and "onlyTheseAttrs attr [''w'', ''h'', ''sx'', ''sy''] = None"
    and "hasAllAttrs attr [''w'', ''h''] = None"
    and "validInt attr 1 [''w'', ''h'', ''sx'', ''sy''] = None"
proof -
  show c: "children = []"
    using assms by (cases children) (simp_all add: PoolCreator_def)
  show o: "onlyTheseAttrs attr [''w'', ''h'', ''sx'', ''sy''] = None"
    using assms c by (cases "onlyTheseAttrs attr [''w'', ''h'', ''sx'', ''sy'']")
      (simp_all add: PoolCreator_def)
  show h: "hasAllAttrs attr [''w'', ''h''] = None"
    using assms c o by (cases "hasAllAttrs attr [''w'', ''h'']")
      (simp_all add: PoolCreator_def)
  show "validInt attr 1 [''w'', ''h'', ''sx'', ''sy''] = None"
    using assms c o h by (cases "validInt attr 1 [''w'', ''h'', ''sx'', ''sy'']")
      (simp_all add: PoolCreator_def)
qed

text \<open>What \<^verbatim>\<open>PoolCreator\<close> computes, for every input and every attribute map it accepts.\<close>

lemma PoolCreator_result:
  assumes "PoolCreator name inD attr children = Inr b"
  shows "\<exists>w h. map_of attr ''w'' = Some (of_int w) \<and> 1 \<le> w
      \<and> map_of attr ''h'' = Some (of_int h) \<and> 1 \<le> h
      \<and> 1 \<le> stride_or attr ''sx'' w \<and> 1 \<le> stride_or attr ''sy'' h
      \<and> b = Pool name w h (stride_or attr ''sx'' w) (stride_or attr ''sy'' h)
            \<lparr>Width = max 0 (1 + go_div (Width inD - w) (stride_or attr ''sx'' w)),
             Height = max 0 (1 + go_div (Height inD - h) (stride_or attr ''sy'' h)),
             Depth = Depth inD\<rparr>"
proof -
  note acc = PoolCreator_accepts [OF assms]
  let ?w = "float64_to_int (attr_get attr ''w'')"
  let ?h = "float64_to_int (attr_get attr ''h'')"
  have w: "1 \<le> ?w" "map_of attr ''w'' = Some (of_int ?w)"
    using required_read [OF acc(3,4), of "''w''"] by simp_all
  have h: "1 \<le> ?h" "map_of attr ''h'' = Some (of_int ?h)"
    using required_read [OF acc(3,4), of "''h''"] by simp_all
  have sx: "(if float64_to_int (attr_get attr ''sx'') = 0 then ?w
             else float64_to_int (attr_get attr ''sx'')) = stride_or attr ''sx'' ?w"
    and sx1: "1 \<le> stride_or attr ''sx'' ?w"
    using stride_read [OF acc(4) _ w(1), of "''sx''"] by simp_all
  have sy: "(if float64_to_int (attr_get attr ''sy'') = 0 then ?h
             else float64_to_int (attr_get attr ''sy'')) = stride_or attr ''sy'' ?h"
    and sy1: "1 \<le> stride_or attr ''sy'' ?h"
    using stride_read [OF acc(4) _ h(1), of "''sy''"] by simp_all
  have "PoolCreator name inD attr children =
      Inr (Pool name ?w ?h (stride_or attr ''sx'' ?w) (stride_or attr ''sy'' ?h)
        \<lparr>Width = max 0 (1 + go_div (Width inD - ?w) (stride_or attr ''sx'' ?w)),
         Height = max 0 (1 + go_div (Height inD - ?h) (stride_or attr ''sy'' ?h)),
         Depth = Depth inD\<rparr>)"
    unfolding PoolCreator_def Let_def acc sx sy clamp_max by simp
  with assms have "b = Pool name ?w ?h (stride_or attr ''sx'' ?w) (stride_or attr ''sy'' ?h)
        \<lparr>Width = max 0 (1 + go_div (Width inD - ?w) (stride_or attr ''sx'' ?w)),
         Height = max 0 (1 + go_div (Height inD - ?h) (stride_or attr ''sy'' ?h)),
         Depth = Depth inD\<rparr>"
    by simp
  with w h sx1 sy1 show ?thesis by blast
qed

lemma PoolCreator_window_fits:
  assumes "PoolCreator name inD attr children = Inr b"
    and "float64_to_int (attr_get attr ''w'') \<le> Width inD"
    and "float64_to_int (attr_get attr ''h'') \<le> Height inD"
  shows "OutDims b =
     Some \<lparr>Width = spec_window_out (Width inD) (float64_to_int (attr_get attr ''w''))
                     (stride_or attr ''sx'' (float64_to_int (attr_get attr ''w''))),
           Height = spec_window_out (Height inD) (float64_to_int (attr_get attr ''h''))
                      (stride_or attr ''sy'' (float64_to_int (attr_get attr ''h''))),
           Depth = Depth inD\<rparr>"
proof -
  from PoolCreator_result [OF assms(1)] obtain w h
    where a: "map_of attr ''w'' = Some (of_int w)" "map_of attr ''h'' = Some (of_int h)"
      "1 \<le> stride_or attr ''sx'' w" "1 \<le> stride_or attr ''sy'' h"
      and b: "b = Pool name w h (stride_or attr ''sx'' w) (stride_or attr ''sy'' h)
            \<lparr>Width = max 0 (1 + go_div (Width inD - w) (stride_or attr ''sx'' w)),
             Height = max 0 (1 + go_div (Height inD - h) (stride_or attr ''sy'' h)),
             Depth = Depth inD\<rparr>"
    by blast
  from a have rd: "float64_to_int (attr_get attr ''w'') = w"
    "float64_to_int (attr_get attr ''h'') = h"
    by (simp_all add: attr_get_def)
  with assms(2,3) a(3,4) b show ?thesis
    by (simp add: window_out_truncating)
qed

text \<open>
  C2. The claim: the output of a Conv block is \<open>max(0, 1 + (in.width - w) / sx)\<close> wide and
  \<open>max(0, 1 + (in.height - h) / sy)\<close> high under floor division, and \<open>n\<close> deep. The
  source divides with Go's \<^verbatim>\<open>/\<close>, which truncates towards zero, and clamps afterwards
  (\<open>CreateConv_result\<close>). The two agree wherever the filter fits the input
  (\<open>CreateConv_filter_fits\<close>) and wherever the filter is too large by at least the stride;
  they part where it is too large by less than the stride (\<open>window_out_truncating\<close>):
  for a 3 by 3 filter with strides 2 on a 2 by 2 input the quotient \<open>(2 - 3) / 2\<close> is 0
  in Go and the block comes out 1 by 1, where the stated formula gives 0 by 0 (no
  position of the filter fits the input).
\<close>

theorem CreateConv_filter_wider_than_input:
  "CreateConv \<lparr>Width = 2, Height = 2, Depth = 1\<rparr>
     [(''w'', 3), (''h'', 3), (''n'', 1), (''sx'', 2), (''sy'', 2)] []
   = Inr (Conv 3 3 1 2 2 \<lparr>Width = 1, Height = 1, Depth = 1\<rparr>)
   \<and> spec_window_out 2 3 2 = 0"
  by (simp add: CreateConv_def attr_get_def float64_to_int_def go_div_def spec_window_out_def)

text \<open>
  C4. The claim: MaxPool and MeanPool give \<open>max(0, 1 + (in.width - w) / sx)\<close> and the like
  for the height under floor division, with strides that default to the window, and keep
  the depth. \<^verbatim>\<open>PoolCreator\<close> reads the attributes and the default strides as stated and
  keeps the depth (\<open>PoolCreator_result\<close>), and gives the stated size wherever the window
  fits the input (\<open>PoolCreator_window_fits\<close>); but it has the same truncating division
  before its clamp as \<^verbatim>\<open>CreateConv\<close>: a 2 by 2 window on a 1 by 1 input gives a 1 by 1
  output for both pool types, where the formula gives 0 by 0. The package comment says that
  max-pooling layers drop partial pools, and \<^verbatim>\<open>CreateMaxPool\<close> of the revision in
  blocks.go gives 0 by 0 on the same input.
\<close>

theorem PoolCreator_window_wider_than_input:
  "PoolCreator ''MaxPool'' \<lparr>Width = 1, Height = 1, Depth = 1\<rparr> [(''w'', 2), (''h'', 2)] []
   = Inr (Pool ''MaxPool'' 2 2 2 2 \<lparr>Width = 1, Height = 1, Depth = 1\<rparr>)
   \<and> PoolCreator ''MeanPool'' \<lparr>Width = 1, Height = 1, Depth = 1\<rparr> [(''w'', 2), (''h'', 2)] []
   = Inr (Pool ''MeanPool'' 2 2 2 2 \<lparr>Width = 1, Height = 1, Depth = 1\<rparr>)
   \<and> spec_window_out 1 2 2 = 0
   \<and> CreateMaxPool \<lparr>Width = 1, Height = 1, Depth = 1\<rparr> [(''w'', 2), (''h'', 2)] []
   = Inr (MaxPool 2 2 \<lparr>Width = 0, Height = 0, Depth = 1\<rparr>)"
  by (simp add: PoolCreator_def CreateMaxPool_def hasAllAndOnlyInts_def attr_get_def
      float64_to_int_def go_div_def spec_window_out_def)

section \<open>Residual, Projection and Repeat\<close>

lemma CreateResidual_Projection_first:
  "CreateResidual inD attr (Projection pc pin # rest) =
     (if rest = [] then Inl ErrNotEnoughChildren
      else case lastOutDims rest of
        None \<Rightarrow> Inl Panic
      | Some layersOut \<Rightarrow>
          (case lastOutDims pc of
             None \<Rightarrow> Inl Panic
           | Some projOut \<Rightarrow>
               if projOut \<noteq> layersOut then Inl (Err ''residual output size mismatch'')
               else Inr (Residual pc rest)))"
  by (simp add: CreateResidual_def split: option.splits)

lemma CreateResidual_other_first:
  assumes "\<And>pc pin. c \<noteq> Projection pc pin"
  shows "CreateResidual inD attr (c # rest) =
     (case lastOutDims (c # rest) of
        None \<Rightarrow> Inl Panic
      | Some layersOut \<Rightarrow>
          if layersOut \<noteq> inD then Inl (Err ''residual output size mismatch'')
          else Inr (Residual [] (c # rest)))"
proof (cases c)
  case (Projection pc pin)
  with assms show ?thesis by blast
qed (simp_all add: CreateResidual_def split: option.splits)

text \<open>
  C3. For a Residual with at least one child: a Projection in first place is taken off and
  its children are the projection branch, what is left is the residual branch and must
  not be empty; with \<open>branchOut\<close> the output of the last child of the residual branch,
  the creator fails with the size mismatch unless \<open>branchOut\<close> equals the output of the
  last child of the projection branch (where there is one) or the inherited input
  (where there is none); on success the output of the Residual block is \<open>branchOut\<close>.
  The hypotheses \<open>lastOutDims \<dots> = Some \<dots>\<close> say that the last child of a branch has an
  output, as every block made by a creator of the package has.
\<close>

theorem CreateResidual_branches:
  "CreateResidual inD attr [Projection pc pin] = Inl ErrNotEnoughChildren
   \<and> (rest \<noteq> [] \<and> lastOutDims rest = Some branchOut \<and> lastOutDims pc = Some projOut \<longrightarrow>
        CreateResidual inD attr (Projection pc pin # rest) =
          (if branchOut = projOut then Inr (Residual pc rest)
           else Inl (Err ''residual output size mismatch''))
        \<and> OutDims (Residual pc rest) = Some branchOut)
   \<and> ((\<forall>pc' pin'. c \<noteq> Projection pc' pin') \<and> lastOutDims (c # rest) = Some branchOut \<longrightarrow>
        CreateResidual inD attr (c # rest) =
          (if branchOut = inD then Inr (Residual [] (c # rest))
           else Inl (Err ''residual output size mismatch''))
        \<and> OutDims (Residual [] (c # rest)) = Some branchOut)
   \<and> (CreateResidual inD attr children = Inr b \<longrightarrow>
        (\<exists>proj res. b = Residual proj res \<and> res \<noteq> [] \<and> OutDims b = lastOutDims res \<and>
           (case children of
              Projection pc' pin' # rest' \<Rightarrow>
                proj = pc' \<and> res = rest' \<and> lastOutDims res = lastOutDims pc'
            | _ \<Rightarrow> proj = [] \<and> res = children \<and> lastOutDims res = Some inD)))"
proof (intro conjI impI)
  show "CreateResidual inD attr [Projection pc pin] = Inl ErrNotEnoughChildren"
    by (simp add: CreateResidual_Projection_first)
next
  assume h: "rest \<noteq> [] \<and> lastOutDims rest = Some branchOut \<and> lastOutDims pc = Some projOut"
  then show "CreateResidual inD attr (Projection pc pin # rest) =
      (if branchOut = projOut then Inr (Residual pc rest)
       else Inl (Err ''residual output size mismatch''))"
    by (auto simp: CreateResidual_Projection_first)
  from h show "OutDims (Residual pc rest) = Some branchOut"
    by (auto simp: lastOutDims_def)
next
  assume h: "(\<forall>pc' pin'. c \<noteq> Projection pc' pin') \<and> lastOutDims (c # rest) = Some branchOut"
  then show "CreateResidual inD attr (c # rest) =
      (if branchOut = inD then Inr (Residual [] (c # rest))
       else Inl (Err ''residual output size mismatch''))"
    by (auto simp: CreateResidual_other_first)
  from h show "OutDims (Residual [] (c # rest)) = Some branchOut"
    by (auto simp: lastOutDims_def)
next
  assume ok: "CreateResidual inD attr children = Inr b"
  show "\<exists>proj res. b = Residual proj res \<and> res \<noteq> [] \<and> OutDims b = lastOutDims res \<and>
           (case children of
              Projection pc' pin' # rest' \<Rightarrow>
                proj = pc' \<and> res = rest' \<and> lastOutDims res = lastOutDims pc'
            | _ \<Rightarrow> proj = [] \<and> res = children \<and> lastOutDims res = Some inD)"
  proof (cases children)
    case Nil
    with ok show ?thesis by (simp add: CreateResidual_def)
  next
    case (Cons c rest)
    show ?thesis
    proof (cases "\<exists>pc' pin'. c = Projection pc' pin'")
      case True
      then obtain pc' pin' where c: "c = Projection pc' pin'" by blast
      with ok Cons show ?thesis
        by (auto simp: CreateResidual_Projection_first lastOutDims_def
            split: if_splits option.splits)
    next
      case False
      then have np: "\<And>pc pin. c \<noteq> Projection pc pin" by blast
      from ok Cons have "lastOutDims (c # rest) = Some inD \<and> b = Residual [] (c # rest)"
        by (auto simp: CreateResidual_other_first [OF np] split: option.splits if_splits)
      with Cons np show ?thesis
        by (cases c) (auto simp: lastOutDims_def)
    qed
  qed
qed

text \<open>
  The theorem at the blocks of the package's own test: a projection branch of one
  convolution to depth 128 beside a residual branch that ends at depth 128; a residual
  branch that restores the input; and one that does not.
\<close>

theorem CreateResidual_branches_witness:
  "CreateResidual \<lparr>Width = 112, Height = 14, Depth = 64\<rparr> []
     [Projection [Conv 1 1 128 1 1 \<lparr>Width = 112, Height = 14, Depth = 128\<rparr>]
        \<lparr>Width = 112, Height = 14, Depth = 64\<rparr>,
      Conv 3 3 128 1 1 \<lparr>Width = 112, Height = 14, Depth = 128\<rparr>]
   = Inr (Residual [Conv 1 1 128 1 1 \<lparr>Width = 112, Height = 14, Depth = 128\<rparr>]
            [Conv 3 3 128 1 1 \<lparr>Width = 112, Height = 14, Depth = 128\<rparr>])
   \<and> OutDims (Residual [Conv 1 1 128 1 1 \<lparr>Width = 112, Height = 14, Depth = 128\<rparr>]
            [Conv 3 3 128 1 1 \<lparr>Width = 112, Height = 14, Depth = 128\<rparr>])
     = Some \<lparr>Width = 112, Height = 14, Depth = 128\<rparr>
   \<and> CreateResidual \<lparr>Width = 112, Height = 14, Depth = 64\<rparr> []
       [Padding 1 1 1 1 \<lparr>Width = 114, Height = 16, Depth = 64\<rparr>,
        Conv 3 3 64 1 1 \<lparr>Width = 112, Height = 14, Depth = 64\<rparr>]
     = Inr (Residual []
         [Padding 1 1 1 1 \<lparr>Width = 114, Height = 16, Depth = 64\<rparr>,
          Conv 3 3 64 1 1 \<lparr>Width = 112, Height = 14, Depth = 64\<rparr>])
   \<and> CreateResidual \<lparr>Width = 224, Height = 224, Depth = 3\<rparr> []
       [Conv 3 3 3 1 1 \<lparr>Width = 222, Height = 222, Depth = 3\<rparr>]
     = Inl (Err ''residual output size mismatch'')"
proof -
  let ?in = "\<lparr>Width = 112, Height = 14, Depth = 64\<rparr>"
  let ?out = "\<lparr>Width = 112, Height = 14, Depth = 128\<rparr>"
  let ?pc = "[Conv 1 1 128 1 1 ?out]"
  let ?rest = "[Conv 3 3 128 1 1 ?out]"
  have a: "?rest \<noteq> [] \<and> lastOutDims ?rest = Some ?out \<and> lastOutDims ?pc = Some ?out"
    by (simp add: lastOutDims_def)
  have b: "(\<forall>pc' pin'. Padding 1 1 1 1 \<lparr>Width = 114, Height = 16, Depth = 64\<rparr> \<noteq> Projection pc' pin')
     \<and> lastOutDims [Padding 1 1 1 1 \<lparr>Width = 114, Height = 16, Depth = 64\<rparr>,
          Conv 3 3 64 1 1 ?in] = Some ?in"
    by (simp add: lastOutDims_def)
  have c: "(\<forall>pc' pin'. Conv 3 3 3 1 1 \<lparr>Width = 222, Height = 222, Depth = 3\<rparr> \<noteq> Projection pc' pin')
     \<and> lastOutDims [Conv 3 3 3 1 1 \<lparr>Width = 222, Height = 222, Depth = 3\<rparr>]
       = Some \<lparr>Width = 222, Height = 222, Depth = 3\<rparr>"
    by (simp add: lastOutDims_def)
  show ?thesis
    using a b c
      CreateResidual_branches [where inD = ?in and attr = "[]" and pc = ?pc and pin = ?in
        and rest = ?rest and branchOut = ?out and projOut = ?out]
      CreateResidual_branches [where inD = ?in and attr = "[]"
        and c = "Padding 1 1 1 1 \<lparr>Width = 114, Height = 16, Depth = 64\<rparr>"
        and rest = "[Conv 3 3 64 1 1 ?in]" and branchOut = ?in]
      CreateResidual_branches [where inD = "\<lparr>Width = 224, Height = 224, Depth = 3\<rparr>"
        and attr = "[]" and c = "Conv 3 3 3 1 1 \<lparr>Width = 222, Height = 222, Depth = 3\<rparr>"
        and rest = "[]" and branchOut = "\<lparr>Width = 222, Height = 222, Depth = 3\<rparr>"]
    by simp
qed



text \<open>
  C5. Repeat: the attribute \<open>n\<close> must be a whole number of at least 1, and 0 is refused;
  with children, the creator fails unless the last child's output is the inherited input;
  on success the output of the Repeat block is the inherited input, whatever \<open>n\<close> is.
\<close>

lemma CreateRepeat_Inr:
  assumes "CreateRepeat inD attr children = Inr b"
  shows "hasAllAndOnlyInts attr 1 [''n''] = None"
    and "children \<noteq> [] \<Longrightarrow> lastOutDims children = Some inD"
    and "b = Repeat (float64_to_int (attr_get attr ''n'')) children inD"
  using assms
  by (auto simp: CreateRepeat_def split: option.splits if_splits)

theorem CreateRepeat_shape:
  "(CreateRepeat inD attr children = Inr b \<longrightarrow>
      (\<exists>k. map_of attr ''n'' = Some (of_int k) \<and> 1 \<le> k \<and> b = Repeat k children inD)
      \<and> (children \<noteq> [] \<longrightarrow> lastOutDims children = Some inD)
      \<and> OutDims b = Some inD)
   \<and> ((\<forall>k. 1 \<le> k \<longrightarrow> map_of attr ''n'' \<noteq> Some (of_int k)) \<longrightarrow>
        isl (CreateRepeat inD attr children))
   \<and> (fst ` set attr \<subseteq> {''n''} \<and> map_of attr ''n'' = Some 0 \<longrightarrow>
        CreateRepeat inD attr children = Inl (Err ''attribute n cannot be 0''))
   \<and> (children \<noteq> [] \<and> lastOutDims children \<noteq> Some inD \<longrightarrow>
        isl (CreateRepeat inD attr children))
   \<and> (hasAllAndOnlyInts attr 1 [''n''] = None \<and> lastOutDims children = Some d \<and> d \<noteq> inD \<longrightarrow>
        CreateRepeat inD attr children = Inl (Err ''input and output lengths must match''))
   \<and> (hasAllAndOnlyInts attr 1 [''n''] = None \<and> (children = [] \<or> lastOutDims children = Some inD) \<longrightarrow>
        CreateRepeat inD attr children
          = Inr (Repeat (float64_to_int (attr_get attr ''n'')) children inD))"
proof (intro conjI impI)
  assume ok: "CreateRepeat inD attr children = Inr b"
  from CreateRepeat_Inr(1) [OF ok] obtain v
    where v: "map_of attr ''n'' = Some v" "intAtLeast 1 v"
    by (auto simp: hasAllAndOnlyInts_None)
  then obtain k where k: "v = of_int k" "1 \<le> k"
    by (auto simp: intAtLeast_iff)
  with v CreateRepeat_Inr(3) [OF ok]
  show "\<exists>k. map_of attr ''n'' = Some (of_int k) \<and> 1 \<le> k \<and> b = Repeat k children inD"
    by (auto simp: attr_get_def)
  show "lastOutDims children = Some inD" if "children \<noteq> []"
    using CreateRepeat_Inr(2) [OF ok that] .
  show "OutDims b = Some inD"
    using CreateRepeat_Inr(3) [OF ok] by simp
next
  assume none: "\<forall>k. 1 \<le> k \<longrightarrow> map_of attr ''n'' \<noteq> Some (of_int k)"
  have "hasAllAndOnlyInts attr 1 [''n''] \<noteq> None"
  proof
    assume "hasAllAndOnlyInts attr 1 [''n''] = None"
    then obtain v where "map_of attr ''n'' = Some v" "intAtLeast 1 v"
      by (auto simp: hasAllAndOnlyInts_None)
    with none show False
      by (auto simp: intAtLeast_iff)
  qed
  then show "isl (CreateRepeat inD attr children)"
    by (auto simp: CreateRepeat_def split: option.splits)
next
  assume "fst ` set attr \<subseteq> {''n''} \<and> map_of attr ''n'' = Some 0"
  then have "onlyTheseAttrs attr [''n''] = None" "map_of attr ''n'' = Some 0"
    by (simp_all add: onlyTheseAttrs_None)
  then show "CreateRepeat inD attr children = Inl (Err ''attribute n cannot be 0'')"
    by (simp add: CreateRepeat_def hasAllAndOnlyInts_def float64_to_int_def fmt_d_0)
next
  assume "children \<noteq> [] \<and> lastOutDims children \<noteq> Some inD"
  then show "isl (CreateRepeat inD attr children)"
    by (auto simp: CreateRepeat_def split: option.splits)
next
  assume "hasAllAndOnlyInts attr 1 [''n''] = None \<and> lastOutDims children = Some d \<and> d \<noteq> inD"
  then show "CreateRepeat inD attr children = Inl (Err ''input and output lengths must match'')"
    by (auto simp: CreateRepeat_def lastOutDims_def split: if_splits)
next
  assume "hasAllAndOnlyInts attr 1 [''n''] = None \<and> (children = [] \<or> lastOutDims children = Some inD)"
  then show "CreateRepeat inD attr children
      = Inr (Repeat (float64_to_int (attr_get attr ''n'')) children inD)"
    by (auto simp: CreateRepeat_def)
qed

text \<open>
  The theorem at the Repeat of the package's test (a padding and a convolution that give
  the input back, twice), at \<open>n = 0\<close>, and at a body that ends in another shape.
\<close>

theorem CreateRepeat_shape_witness:
  "CreateRepeat \<lparr>Width = 112, Height = 14, Depth = 64\<rparr> [(''n'', 2)]
     [Padding 1 1 1 1 \<lparr>Width = 114, Height = 16, Depth = 64\<rparr>,
      Conv 3 3 64 1 1 \<lparr>Width = 112, Height = 14, Depth = 64\<rparr>]
   = Inr (Repeat 2
       [Padding 1 1 1 1 \<lparr>Width = 114, Height = 16, Depth = 64\<rparr>,
        Conv 3 3 64 1 1 \<lparr>Width = 112, Height = 14, Depth = 64\<rparr>]
       \<lparr>Width = 112, Height = 14, Depth = 64\<rparr>)
   \<and> CreateRepeat \<lparr>Width = 224, Height = 224, Depth = 3\<rparr> [(''n'', 0)] []
     = Inl (Err ''attribute n cannot be 0'')
   \<and> CreateRepeat \<lparr>Width = 224, Height = 224, Depth = 3\<rparr> [(''n'', 1)]
       [Conv 1 1 4 1 1 \<lparr>Width = 224, Height = 224, Depth = 4\<rparr>]
     = Inl (Err ''input and output lengths must match'')"
proof -
  let ?in = "\<lparr>Width = 112, Height = 14, Depth = 64\<rparr>"
  let ?body = "[Padding 1 1 1 1 \<lparr>Width = 114, Height = 16, Depth = 64\<rparr>, Conv 3 3 64 1 1 ?in]"
  let ?big = "\<lparr>Width = 224, Height = 224, Depth = 3\<rparr>"
  let ?other = "[Conv 1 1 4 1 1 \<lparr>Width = 224, Height = 224, Depth = 4\<rparr>]"
  have a: "hasAllAndOnlyInts [(''n'', 2)] 1 [''n''] = None
      \<and> (?body = [] \<or> lastOutDims ?body = Some ?in)"
    by (simp add: hasAllAndOnlyInts_def lastOutDims_def float64_to_int_def)
  have b: "fst ` set [(''n'', 0::real)] \<subseteq> {''n''} \<and> map_of [(''n'', 0::real)] ''n'' = Some 0"
    by simp
  have c: "hasAllAndOnlyInts [(''n'', 1)] 1 [''n''] = None
      \<and> lastOutDims ?other = Some \<lparr>Width = 224, Height = 224, Depth = 4\<rparr>
      \<and> \<lparr>Width = 224, Height = 224, Depth = 4\<rparr> \<noteq> ?big"
    by (simp add: hasAllAndOnlyInts_def lastOutDims_def float64_to_int_def)
  have "CreateRepeat ?in [(''n'', 2)] ?body
      = Inr (Repeat (float64_to_int (attr_get [(''n'', 2)] ''n'')) ?body ?in)"
    by (rule CreateRepeat_shape [THEN conjunct2, THEN conjunct2, THEN conjunct2,
          THEN conjunct2, THEN conjunct2, THEN mp, OF a])
  then have s1: "CreateRepeat ?in [(''n'', 2)] ?body = Inr (Repeat 2 ?body ?in)"
    by (simp add: attr_get_def float64_to_int_def)
  have s2: "CreateRepeat ?big [(''n'', 0)] [] = Inl (Err ''attribute n cannot be 0'')"
    by (rule CreateRepeat_shape [THEN conjunct2, THEN conjunct2, THEN conjunct1, THEN mp, OF b])
  have s3: "CreateRepeat ?big [(''n'', 1)] ?other
      = Inl (Err ''input and output lengths must match'')"
    by (rule CreateRepeat_shape [THEN conjunct2, THEN conjunct2, THEN conjunct2,
          THEN conjunct2, THEN conjunct1, THEN mp, OF c])
  from s1 s2 s3 show ?thesis by simp
qed

section \<open>Attribute validation across the creators\<close>

lemma CreateResidual_attr_unused:
  "CreateResidual inD attr children = CreateResidual inD attr' children"
  by (simp add: CreateResidual_def)

text \<open>
  C6. The claim: every built-in creator fails, naming the attribute, when an attribute
  outside the block's allowed set is present, when a required one is absent, or when a
  whole-number attribute has a fractional part or is below the minimum, and validation
  succeeds otherwise. That is what \<open>hasAllAndOnlyInts\<close> and the three checks it is made
  of decide (\<open>hasAllAndOnlyInts_None\<close>, \<open>hasAllAndOnlyInts_Some\<close>), and the creators
  of the other blocks without attributes (\<^verbatim>\<open>CreateRoot\<close>, \<^verbatim>\<open>CreateProjection\<close>,
  \<^verbatim>\<open>ActivationCreator\<close>) call it with an empty allowed set. \<^verbatim>\<open>CreateResidual\<close> never
  reads its attribute map (\<open>CreateResidual_attr_unused\<close>), so a Residual with an
  attribute, whole or fractional, is created where the same map makes a Projection or a
  Root fail.
\<close>

theorem CreateResidual_accepts_unknown_attribute:
  "CreateResidual \<lparr>Width = 1, Height = 1, Depth = 1\<rparr> [(''x'', 3 / 2)]
     [Activation ''ReLU'' \<lparr>Width = 1, Height = 1, Depth = 1\<rparr>]
   = Inr (Residual [] [Activation ''ReLU'' \<lparr>Width = 1, Height = 1, Depth = 1\<rparr>])
   \<and> CreateProjection \<lparr>Width = 1, Height = 1, Depth = 1\<rparr> [(''x'', 3 / 2)]
     [Activation ''ReLU'' \<lparr>Width = 1, Height = 1, Depth = 1\<rparr>]
   = Inl (Err ''unexpected attribute: x'')
   \<and> CreateRoot \<lparr>Width = 1, Height = 1, Depth = 1\<rparr> [(''x'', 3 / 2)]
     [Activation ''ReLU'' \<lparr>Width = 1, Height = 1, Depth = 1\<rparr>]
   = Inl (Err ''unexpected attribute: x'')"
  by (simp add: CreateResidual_def CreateProjection_def CreateRoot_def lastOutDims_def
      hasAllAndOnlyInts_def)

section \<open>The realizer chain\<close>

text \<open>A realizer declines a block when the error it returns is \<^verbatim>\<open>ErrUnsupportedBlock\<close> itself.\<close>

definition declines :: "('r, 'v) Realizer \<Rightarrow> 'r list \<Rightarrow> Dims \<Rightarrow> Block \<Rightarrow> 'r \<Rightarrow> bool" where
  "declines rz chain d b realizer \<longleftrightarrow> snd (rz realizer chain d b) = Some ErrUnsupportedBlock"

lemma Realize_loop_all_decline:
  "list_all (declines rz chain d b) rest \<Longrightarrow>
     Realize_loop rz chain rest d b = (None, False, Some (Err (''unsupported block: '' @ go_type b)))"
  by (induction rest) (auto simp: declines_def split: prod.splits)

lemma Realize_loop_skips:
  "list_all (declines rz chain d b) pre \<Longrightarrow>
     Realize_loop rz chain (pre @ rest) d b = Realize_loop rz chain rest d b"
  by (induction pre) (auto simp: declines_def split: prod.splits)

lemma Realize_loop_first:
  "\<not> declines rz chain d b realizer \<Longrightarrow>
     Realize_loop rz chain (realizer # post) d b
       = (fst (rz realizer chain d b), True, snd (rz realizer chain d b))"
  by (auto simp: declines_def split: prod.splits)

lemma Realize_loop_supported:
  "fst (snd (Realize_loop rz chain rest d b)) \<longleftrightarrow> \<not> list_all (declines rz chain d b) rest"
  by (induction rest) (auto simp: declines_def split: prod.splits)

lemma Realize_loop_after_declining:
  assumes "list_all (declines rz chain d b) pre" and "\<not> declines rz chain d b realizer"
  shows "Realize_loop rz chain (pre @ realizer # post) d b
       = (fst (rz realizer chain d b), True, snd (rz realizer chain d b))"
proof -
  have "Realize_loop rz chain (pre @ realizer # post) d b
      = Realize_loop rz chain (realizer # post) d b"
    using assms(1) by (rule Realize_loop_skips)
  also have "\<dots> = (fst (rz realizer chain d b), True, snd (rz realizer chain d b))"
    using assms(2) by (rule Realize_loop_first)
  finally show ?thesis .
qed

text \<open>
  C7. The chain tries its realizers in order and returns the object and the error of the
  first one that does not decline, with \<open>supported = True\<close>; \<open>supported\<close> is
  \<open>False\<close> exactly when every realizer of the chain declines, and the error is then
  "unsupported block: " followed by the block's dynamic type.
\<close>

theorem RealizerChain_first_that_does_not_decline:
  "(list_all (declines rz chain d b) pre \<and> \<not> declines rz chain d b realizer
      \<and> chain = pre @ realizer # post \<longrightarrow>
      RealizerChain_Realize rz chain d b
        = (fst (rz realizer chain d b), True, snd (rz realizer chain d b)))
   \<and> (fst (snd (RealizerChain_Realize rz chain d b)) = False
        \<longleftrightarrow> list_all (declines rz chain d b) chain)
   \<and> (list_all (declines rz chain d b) chain \<longrightarrow>
        RealizerChain_Realize rz chain d b
          = (None, False, Some (Err (''unsupported block: '' @ go_type b))))"
proof (intro conjI impI)
  assume h: "list_all (declines rz chain d b) pre \<and> \<not> declines rz chain d b realizer
      \<and> chain = pre @ realizer # post"
  then have pre: "list_all (declines rz chain d b) pre"
    and nd: "\<not> declines rz chain d b realizer"
    and ch: "chain = pre @ realizer # post"
    by blast+
  have "RealizerChain_Realize rz chain d b = Realize_loop rz chain chain d b"
    by (simp add: RealizerChain_Realize_def)
  also have "\<dots> = Realize_loop rz chain (pre @ realizer # post) d b"
    using ch by (rule arg_cong [where f = "\<lambda>x. Realize_loop rz chain x d b"])
  also have "\<dots> = (fst (rz realizer chain d b), True, snd (rz realizer chain d b))"
    using pre nd by (rule Realize_loop_after_declining)
  finally show "RealizerChain_Realize rz chain d b
      = (fst (rz realizer chain d b), True, snd (rz realizer chain d b))" .
next
  show "fst (snd (RealizerChain_Realize rz chain d b)) = False
      \<longleftrightarrow> list_all (declines rz chain d b) chain"
    by (simp add: RealizerChain_Realize_def Realize_loop_supported)
next
  assume "list_all (declines rz chain d b) chain"
  then show "RealizerChain_Realize rz chain d b
      = (None, False, Some (Err (''unsupported block: '' @ go_type b)))"
    by (simp add: RealizerChain_Realize_def Realize_loop_all_decline)
qed

text \<open>Realizers given by what they do to a block, which ignore the chain and the dimensions.\<close>

definition by_block :: "(Block \<Rightarrow> 'v option \<times> error option, 'v) Realizer" where
  "by_block realizer chain d b = realizer b"

definition only_FC :: "Block \<Rightarrow> nat option \<times> error option" where
  "only_FC b = (case b of FC n \<Rightarrow> (Some (nat n), None) | _ \<Rightarrow> (None, Some ErrUnsupportedBlock))"

definition meta_only :: "Block \<Rightarrow> nat option \<times> error option" where
  "meta_only b = MetaRealizer_Realize ([] :: unit list) \<lparr>Width = 0, Height = 0, Depth = 0\<rparr> b"

text \<open>
  The theorem at a chain of the package's \<^verbatim>\<open>MetaRealizer\<close> and a realizer for FC
  blocks only: an FC block is realized by the second realizer, an Input block by the first
  (with no object), and a Resize block by none.
\<close>

theorem RealizerChain_first_that_does_not_decline_witness:
  "RealizerChain_Realize by_block [meta_only, only_FC, meta_only]
      \<lparr>Width = 1, Height = 1, Depth = 1\<rparr> (FC 10) = (Some 10, True, None)
   \<and> RealizerChain_Realize by_block [meta_only, only_FC]
      \<lparr>Width = 1, Height = 1, Depth = 1\<rparr> (Input \<lparr>Width = 1, Height = 1, Depth = 1\<rparr>)
     = (None, True, None)
   \<and> RealizerChain_Realize by_block [meta_only, only_FC]
      \<lparr>Width = 1, Height = 1, Depth = 1\<rparr> (Resize \<lparr>Width = 1, Height = 1, Depth = 1\<rparr>)
     = (None, False, Some (Err ''unsupported block: *convmarkup.Resize''))"
proof -
  let ?d = "\<lparr>Width = 1, Height = 1, Depth = 1\<rparr>"
  let ?c = "[meta_only, only_FC, meta_only]"
  have a: "list_all (declines by_block ?c ?d (FC 10)) [meta_only]
      \<and> \<not> declines by_block ?c ?d (FC 10) only_FC \<and> ?c = [meta_only] @ only_FC # [meta_only]"
    by (simp add: declines_def by_block_def meta_only_def only_FC_def)
  have b: "list_all (declines by_block [meta_only, only_FC] ?d (Input ?d)) []
      \<and> \<not> declines by_block [meta_only, only_FC] ?d (Input ?d) meta_only
      \<and> [meta_only, only_FC] = [] @ meta_only # [only_FC]"
    by (simp add: declines_def by_block_def meta_only_def only_FC_def)
  have c: "list_all (declines by_block [meta_only, only_FC] ?d (Resize ?d)) [meta_only, only_FC]"
    by (simp add: declines_def by_block_def meta_only_def only_FC_def)
  have s1: "RealizerChain_Realize by_block ?c ?d (FC 10)
      = (fst (by_block only_FC ?c ?d (FC 10)), True, snd (by_block only_FC ?c ?d (FC 10)))"
    by (rule RealizerChain_first_that_does_not_decline [THEN conjunct1, THEN mp, OF a])
  have s2: "RealizerChain_Realize by_block [meta_only, only_FC] ?d (Input ?d)
      = (fst (by_block meta_only [meta_only, only_FC] ?d (Input ?d)), True,
         snd (by_block meta_only [meta_only, only_FC] ?d (Input ?d)))"
    by (rule RealizerChain_first_that_does_not_decline [THEN conjunct1, THEN mp, OF b])
  have s3: "RealizerChain_Realize by_block [meta_only, only_FC] ?d (Resize ?d)
      = (None, False, Some (Err (''unsupported block: '' @ go_type (Resize ?d))))"
    by (rule RealizerChain_first_that_does_not_decline [THEN conjunct2, THEN conjunct2, THEN mp, OF c])
  from s1 s2 s3 show ?thesis
    by (simp add: by_block_def only_FC_def meta_only_def)
qed


section \<open>Elaboration\<close>

text \<open>
  The dimensions that go into child \<open>i\<close>: the node's input for the first, the output
  of the child before it for the others.
\<close>

definition dims_into :: "Dims \<Rightarrow> Block list \<Rightarrow> nat \<Rightarrow> Dims option" where
  "dims_into inD bs i = (if i = 0 then Some inD else OutDims (bs ! (i - 1)))"

lemma elaborate_children_threads:
  "elaborate_children creators dims cs = Inr bs \<Longrightarrow>
     length bs = length cs \<and>
     (\<forall>i < length cs. \<exists>d. dims_into dims bs i = Some d
         \<and> ASTNode_Block creators d (cs ! i) = Inr (bs ! i))"
proof (induction cs arbitrary: dims bs)
  case Nil
  then show ?case by simp
next
  case (Cons child cs)
  from Cons.prems obtain b dims' bs'
    where b: "ASTNode_Block creators dims child = Inr b"
      and d: "OutDims b = Some dims'"
      and rest: "elaborate_children creators dims' cs = Inr bs'"
      and bs: "bs = b # bs'"
    by (auto split: sum.splits option.splits)
  from Cons.IH [OF rest]
  have len: "length bs' = length cs"
    and ih: "\<And>i. i < length cs \<Longrightarrow> \<exists>d. dims_into dims' bs' i = Some d
         \<and> ASTNode_Block creators d (cs ! i) = Inr (bs' ! i)"
    by blast+
  have "\<exists>d. dims_into dims bs i = Some d
         \<and> ASTNode_Block creators d ((child # cs) ! i) = Inr (bs ! i)"
    if "i < length (child # cs)" for i
  proof (cases i)
    case 0
    with b bs show ?thesis by (simp add: dims_into_def)
  next
    case (Suc j)
    with that have j: "j < length cs" by simp
    from ih [OF j] obtain d' where d': "dims_into dims' bs' j = Some d'"
      "ASTNode_Block creators d' (cs ! j) = Inr (bs' ! j)"
      by blast
    have "dims_into dims bs (Suc j) = Some d'"
      using d' d bs by (cases j) (simp_all add: dims_into_def)
    with d' Suc bs show ?thesis by simp
  qed
  with len bs show ?case by simp
qed

text \<open>
  C1. When a node elaborates to a block, there is a list of elaborated children, one for
  each child of the node and in the same order, such that the first child was elaborated
  with the node's input dimensions and every later child with the output dimensions of the
  child before it; and the block is what the creator registered under the node's name
  returns for the node's input dimensions, the node's attributes and that list. The
  creator comes last: when a child fails, the node fails with the child's error, whatever
  is registered under the node's name.
\<close>

theorem elaboration_threads_dims:
  "(ASTNode_Block creators inD node = Inr b \<longrightarrow>
     (\<exists>children creator.
        length children = length (Children node)
        \<and> (\<forall>i < length children. \<exists>d. dims_into inD children i = Some d
              \<and> ASTNode_Block creators d (Children node ! i) = Inr (children ! i))
        \<and> creators (BlockName node) = Some creator
        \<and> creator inD (Attrs node) children = Inr b))
   \<and> (elaborate_children creators inD (Children node) = Inl e \<longrightarrow>
        ASTNode_Block creators inD node = Inl e)"
proof (intro conjI impI)
  assume ok: "ASTNode_Block creators inD node = Inr b"
  obtain line name attr cs where node: "node = ASTNode line name attr cs"
    by (cases node)
  from ok node obtain children creator
    where ch: "elaborate_children creators inD cs = Inr children"
      and cr: "creators name = Some creator"
      and res: "creator inD attr children = Inr b"
    by (auto split: sum.splits option.splits)
  from elaborate_children_threads [OF ch] node cr res
  show "\<exists>children creator.
        length children = length (Children node)
        \<and> (\<forall>i < length children. \<exists>d. dims_into inD children i = Some d
              \<and> ASTNode_Block creators d (Children node ! i) = Inr (children ! i))
        \<and> creators (BlockName node) = Some creator
        \<and> creator inD (Attrs node) children = Inr b"
    by auto
next
  assume "elaborate_children creators inD (Children node) = Inl e"
  then show "ASTNode_Block creators inD node = Inl e"
    by (cases node) simp
qed

text \<open>
  The first three blocks of the package's test, and what they elaborate to; and a node
  with no creator registered whose only child fails.
\<close>

definition example_root :: ASTNode where
  "example_root =
     ASTNode 0 [] []
       [ASTNode 0 ''Input'' [(''w'', 224), (''h'', 113), (''d'', 3)] [],
        ASTNode 1 ''Padding'' [(''l'', 2), (''r'', 0), (''t'', 1), (''b'', 3)] [],
        ASTNode 2 ''Conv'' [(''w'', 3), (''h'', 5), (''n'', 64), (''sx'', 2), (''sy'', 4)] []]"

definition example_blocks :: "Block list" where
  "example_blocks =
     [Input \<lparr>Width = 224, Height = 113, Depth = 3\<rparr>,
      Padding 1 0 3 2 \<lparr>Width = 226, Height = 117, Depth = 3\<rparr>,
      Conv 3 5 64 2 4 \<lparr>Width = 112, Height = 29, Depth = 64\<rparr>]"

lemma example_root_elaborates:
  "ASTNode_Block DefaultCreators \<lparr>Width = 0, Height = 0, Depth = 0\<rparr> example_root
     = Inr (Root example_blocks)"
  by (simp add: example_root_def example_blocks_def DefaultCreators_def CreateRoot_def
      CreateInput_def CreatePadding_def CreateConv_def hasAllAndOnlyInts_def attr_get_def
      float64_to_int_def go_div_def)

lemma example_child_fails:
  "elaborate_children DefaultCreators \<lparr>Width = 8, Height = 8, Depth = 3\<rparr>
     (Children (ASTNode 0 ''Unregistered'' [] [ASTNode 1 ''Conv'' [] []]))
   = Inl (Err ''missing attribute: w'')"
  by (simp add: DefaultCreators_def CreateConv_def)

theorem elaboration_threads_dims_witness:
  "(\<exists>children creator.
      length children = 3
      \<and> (\<exists>d. dims_into \<lparr>Width = 0, Height = 0, Depth = 0\<rparr> children 2 = Some d
            \<and> ASTNode_Block DefaultCreators d (Children example_root ! 2) = Inr (children ! 2))
      \<and> DefaultCreators [] = Some creator
      \<and> creator \<lparr>Width = 0, Height = 0, Depth = 0\<rparr> [] children = Inr (Root example_blocks))
   \<and> ASTNode_Block DefaultCreators \<lparr>Width = 8, Height = 8, Depth = 3\<rparr>
        (ASTNode 0 ''Unregistered'' [] [ASTNode 1 ''Conv'' [] []])
     = Inl (Err ''missing attribute: w'')"
proof -
  from elaboration_threads_dims [THEN conjunct1, THEN mp, OF example_root_elaborates]
  obtain children creator where
    len: "length children = length (Children example_root)"
    and th: "\<forall>i < length children. \<exists>d. dims_into \<lparr>Width = 0, Height = 0, Depth = 0\<rparr> children i = Some d
              \<and> ASTNode_Block DefaultCreators d (Children example_root ! i) = Inr (children ! i)"
    and cr: "DefaultCreators (BlockName example_root) = Some creator"
    and res: "creator \<lparr>Width = 0, Height = 0, Depth = 0\<rparr> (Attrs example_root) children
        = Inr (Root example_blocks)"
    by blast
  from len have l3: "length children = 3"
    by (simp add: example_root_def)
  with th have "\<exists>d. dims_into \<lparr>Width = 0, Height = 0, Depth = 0\<rparr> children 2 = Some d
            \<and> ASTNode_Block DefaultCreators d (Children example_root ! 2) = Inr (children ! 2)"
    by simp
  moreover from cr have "DefaultCreators [] = Some creator"
    by (simp add: example_root_def)
  moreover from res have "creator \<lparr>Width = 0, Height = 0, Depth = 0\<rparr> [] children
      = Inr (Root example_blocks)"
    by (simp add: example_root_def)
  ultimately have first: "\<exists>children creator.
      length children = 3
      \<and> (\<exists>d. dims_into \<lparr>Width = 0, Height = 0, Depth = 0\<rparr> children 2 = Some d
            \<and> ASTNode_Block DefaultCreators d (Children example_root ! 2) = Inr (children ! 2))
      \<and> DefaultCreators [] = Some creator
      \<and> creator \<lparr>Width = 0, Height = 0, Depth = 0\<rparr> [] children = Inr (Root example_blocks)"
    using l3 by blast
  have "ASTNode_Block DefaultCreators \<lparr>Width = 8, Height = 8, Depth = 3\<rparr>
        (ASTNode 0 ''Unregistered'' [] [ASTNode 1 ''Conv'' [] []])
     = Inl (Err ''missing attribute: w'')"
    by (rule elaboration_threads_dims [THEN conjunct2, THEN mp, OF example_child_fails])
  with first show ?thesis by blast
qed

section \<open>Parse errors\<close>







section \<open>Opening and closing lines\<close>











lemma matchingClose_loop_Inl:
  "matchingClose_loop ls i n = Inl msg \<Longrightarrow> msg = ''no matching }''"
  by (induction ls arbitrary: i n) (auto split: if_splits)

















































end
